theory Spec2Isabelle
  imports Main "HOL-Library.Word"
begin

unbundle bit_operations_syntax

section \<open>Values as the dumper sees them through reflection\<close>

text \<open>
  \<open>fit-dump\<close> walks a decoded FIT file with Go's \<open>reflect\<close> package and prints
  every populated field. A \<open>reflect.Value\<close> is modelled by the datatype \<open>val\<close>: what
  the dumper observes of a value is its kind, its contents, and what calling a method named
  \<open>String\<close> on it gives. The object graph is a finite tree (decoded FIT data holds no
  pointer cycles). Standard output is the text written so far, and a panic is an outcome of
  its own, so that what was printed before it is kept.

  The repository holds two versions of \<open>fit-dump.go\<close>. The definitions without a
  suffix follow the first one (lines 1 to 312 of the source file); the definitions ending in
  \<open>_v2\<close> follow the second one (lines 313 to 616).
\<close>

text \<open>The outcome of \<open>field.MethodByName("String")\<close> followed by
  \<open>method.Call(nil)[0].String()\<close>: the type has no such method, the call returns a
  text, or the call panics (a value receiver reached through a nil pointer).\<close>

datatype stringer = NoString | StringReturns string | StringPanics

text \<open>Scalars carry their bits: signed and unsigned integers as machine words, floats
  as their IEEE-754 bit patterns, strings as byte sequences. \<open>Other\<close> is a value of any
  kind that neither the sentinel table nor the structural switch names (int, uint, uintptr,
  complex, map, chan, func, interface); its payload only tells such values apart.\<close>

datatype scalar =
    Bool bool
  | Int8 "8 word" | Int16 "16 word" | Int32 "32 word" | Int64 "64 word"
  | Uint8 "8 word" | Uint16 "16 word" | Uint32 "32 word" | Uint64 "64 word"
  | Float32 "32 word" | Float64 "64 word"
  | String string
  | Other string

text \<open>\<open>Invalid\<close> is the zero \<open>reflect.Value\<close>, which \<open>reflect.Indirect\<close> returns
  for a nil pointer. Struct fields are kept in declaration order with their names.\<close>

datatype val =
    Invalid
  | Scalar stringer scalar
  | Struct stringer "(string \<times> val) list"
  | Ptr stringer "val option"
  | Slice stringer "val list"
  | Array stringer "val list"

fun MethodByName_String :: "val \<Rightarrow> stringer" where
  "MethodByName_String Invalid = NoString"
| "MethodByName_String (Scalar m _) = m"
| "MethodByName_String (Struct m _) = m"
| "MethodByName_String (Ptr m _) = m"
| "MethodByName_String (Slice m _) = m"
| "MethodByName_String (Array m _) = m"

text \<open>\<open>reflect.Indirect\<close>: the pointee of a pointer (the zero Value for a nil
  pointer), and the value itself for every other kind.\<close>

fun Indirect :: "val \<Rightarrow> val" where
  "Indirect (Ptr _ None) = Invalid"
| "Indirect (Ptr _ (Some v)) = v"
| "Indirect v = v"

section \<open>Library functions the program calls\<close>

text \<open>The Unicode upper-case table behind \<open>unicode.IsUpper\<close> (a rune is given by
  its code point) and the \<open>%v\<close> and \<open>%+v\<close> renderings of \<open>fmt\<close> are not part of
  the repository; they are parameters of the model.\<close>

record golib =
  IsUpper :: "nat \<Rightarrow> bool"
  Sprint_v :: "val \<Rightarrow> string"
  Sprint_plus_v :: "val \<Rightarrow> string"

definition NL :: char where
  "NL = CHR 0x0A"

definition TAB :: char where
  "TAB = CHR 0x09"

text \<open>\<open>%d\<close> of a non-negative \<open>int\<close>: its decimal digits.\<close>

function fmt_d :: "nat \<Rightarrow> string" where
  "fmt_d n = (if n < 10 then [''0123456789'' ! n] else fmt_d (n div 10) @ [''0123456789'' ! (n mod 10)])"
  by pat_completeness auto
termination
  by (relation "measure id") auto

declare fmt_d.simps [simp del]

text \<open>\<open>strings.HasSuffix\<close>.\<close>

definition HasSuffix :: "string \<Rightarrow> string \<Rightarrow> bool" where
  "HasSuffix s suffix =
     (length s \<ge> length suffix \<and> drop (length s - length suffix) s = suffix)"

section \<open>Standard output and panics\<close>

text \<open>A call either returns after printing a text to standard output, or panics after
  printing a text.\<close>

datatype outcome = Done string | Panicked string

fun printed :: "outcome \<Rightarrow> string" where
  "printed (Done s) = s"
| "printed (Panicked s) = s"

text \<open>Sequencing of two statements: the second runs only if the first returns.\<close>

fun andThen :: "outcome \<Rightarrow> outcome \<Rightarrow> outcome" where
  "andThen (Done a) (Done b) = Done (a @ b)"
| "andThen (Done a) (Panicked b) = Panicked (a @ b)"
| "andThen (Panicked a) _ = Panicked a"

text \<open>\<open>printIndent\<close>, applied to the already formatted text.\<close>

definition printIndent :: "nat \<Rightarrow> string \<Rightarrow> outcome" where
  "printIndent level text = Done (replicate level TAB @ text)"

section \<open>The sentinel table\<close>

text \<open>Go compares floats by IEEE-754 equality: a NaN equals nothing, itself included,
  and the two zeros are equal.\<close>

definition isNaN32 :: "32 word \<Rightarrow> bool" where
  "isNaN32 w = (w AND 0x7F800000 = 0x7F800000 \<and> w AND 0x007FFFFF \<noteq> 0)"

definition isNaN64 :: "64 word \<Rightarrow> bool" where
  "isNaN64 w = (w AND 0x7FF0000000000000 = 0x7FF0000000000000 \<and> w AND 0x000FFFFFFFFFFFFF \<noteq> 0)"

definition float32_eq :: "32 word \<Rightarrow> 32 word \<Rightarrow> bool" where
  "float32_eq a b =
     (\<not> isNaN32 a \<and> \<not> isNaN32 b \<and> (a = b \<or> (a AND 0x7FFFFFFF = 0 \<and> b AND 0x7FFFFFFF = 0)))"

definition float64_eq :: "64 word \<Rightarrow> 64 word \<Rightarrow> bool" where
  "float64_eq a b =
     (\<not> isNaN64 a \<and> \<not> isNaN64 b \<and>
      (a = b \<or> (a AND 0x7FFFFFFFFFFFFFFF = 0 \<and> b AND 0x7FFFFFFFFFFFFFFF = 0)))"

text \<open>\<open>float32(v.Float())\<close> for a field of kind float32: \<open>v.Float()\<close> widens the
  float32 to a float64, which is exact, and the conversion back gives the same float32; a
  NaN stays a NaN (with its quiet bit set).\<close>

definition float32_of_Float :: "32 word \<Rightarrow> 32 word" where
  "float32_of_Float w = (if isNaN32 w then w OR 0x00400000 else w)"

text \<open>\<open>invalidValues\<close>: the lookup by kind and the call of the predicate found.
  \<open>None\<close> is a kind without an entry. \<open>v.Int()\<close> and \<open>v.Uint()\<close> widen the field to
  64 bits, signed and unsigned.\<close>

fun invalidValues :: "scalar \<Rightarrow> bool option" where
  "invalidValues (Bool b) = Some (b = False)"
| "invalidValues (Int8 w) = Some (sint w = 0x7f)"
| "invalidValues (Int16 w) = Some (sint w = 0x7fff)"
| "invalidValues (Int32 w) = Some (sint w = 0x7fffffff)"
| "invalidValues (Int64 w) = Some (sint w = 0x7fffffffffffffff)"
| "invalidValues (Uint8 w) = Some (uint w = 0xff)"
| "invalidValues (Uint16 w) = Some (uint w = 0xffff)"
| "invalidValues (Uint32 w) = Some (uint w = 0xffffffff)"
| "invalidValues (Uint64 w) = Some (uint w = 0xffffffffffffffff)"
| "invalidValues (Float32 w) = Some (float32_eq (float32_of_Float w) 0xFFFFFFFF)"
| "invalidValues (Float64 w) = Some (float64_eq w 0xFFFFFFFFFFFFFFFF)"
| "invalidValues (String s) = Some (s = [])"
| "invalidValues (Other _) = None"

fun invalidFunc :: "val \<Rightarrow> bool option" where
  "invalidFunc (Scalar _ s) = invalidValues s"
| "invalidFunc _ = None"

section \<open>The tree printer\<close>

text \<open>\<open>dumpField\<close>. Asking the zero Value for a method panics.\<close>

definition dumpField :: "golib \<Rightarrow> val \<Rightarrow> string \<Rightarrow> nat \<Rightarrow> outcome" where
  "dumpField lib field name level =
     (if field = Invalid then Panicked []
      else case MethodByName_String field of
        StringPanics \<Rightarrow> Panicked []
      | StringReturns str \<Rightarrow>
          if HasSuffix str ''Invalid'' then Done []
          else printIndent level (name @ '': '' @ str @ [NL])
      | NoString \<Rightarrow>
          (case invalidFunc field of
             Some invalid \<Rightarrow>
               if invalid then Done []
               else printIndent level (name @ '': '' @ Sprint_v lib field @ [NL])
           | None \<Rightarrow> printIndent level (name @ '': '' @ Sprint_plus_v lib field @ [NL])))"

text \<open>\<open>utf8.DecodeRune\<close> of the Go standard library, on the bytes of the name: the
  table \<open>first\<close> of lead bytes, the accepted ranges of the second byte, and the decoder.
  It returns \<open>(RuneError, 0)\<close> for no bytes and \<open>(RuneError, 1)\<close> for an invalid
  encoding.\<close>

definition RuneError :: nat where
  "RuneError = 0xFFFD"

definition utf8_first :: "nat \<Rightarrow> nat" where
  "utf8_first p0 =
     (if p0 < 0x80 then 0xF0
      else if p0 < 0xC2 then 0xF1
      else if p0 < 0xE0 then 0x02
      else if p0 = 0xE0 then 0x13
      else if p0 < 0xED then 0x03
      else if p0 = 0xED then 0x23
      else if p0 < 0xF0 then 0x03
      else if p0 = 0xF0 then 0x34
      else if p0 < 0xF4 then 0x04
      else if p0 = 0xF4 then 0x44
      else 0xF1)"

definition acceptRanges :: "nat \<Rightarrow> nat \<times> nat" where
  "acceptRanges i =
     (if i = 0 then (0x80, 0xBF)
      else if i = 1 then (0xA0, 0xBF)
      else if i = 2 then (0x80, 0x9F)
      else if i = 3 then (0x90, 0xBF)
      else if i = 4 then (0x80, 0x8F)
      else (0, 0))"

definition DecodeRune :: "nat list \<Rightarrow> nat \<times> nat" where
  "DecodeRune p =
     (let n = length p in
      if n < 1 then (RuneError, 0)
      else
        let p0 = p ! 0; x = utf8_first p0 in
        if x \<ge> 0xF0 then (if x = 0xF1 then RuneError else p0, 1)
        else
          let sz = x AND 7; (lo, hi) = acceptRanges (drop_bit 4 x) in
          if n < sz then (RuneError, 1)
          else
            let b1 = p ! 1 in
            if b1 < lo \<or> hi < b1 then (RuneError, 1)
            else if sz \<le> 2 then (push_bit 6 (p0 AND 0x1F) OR (b1 AND 0x3F), 2)
            else
              let b2 = p ! 2 in
              if b2 < 0x80 \<or> 0xBF < b2 then (RuneError, 1)
              else if sz \<le> 3 then
                (push_bit 12 (p0 AND 0x0F) OR push_bit 6 (b1 AND 0x3F) OR (b2 AND 0x3F), 3)
              else
                let b3 = p ! 3 in
                if b3 < 0x80 \<or> 0xBF < b3 then (RuneError, 1)
                else
                  (push_bit 18 (p0 AND 0x07) OR push_bit 12 (b1 AND 0x3F)
                     OR push_bit 6 (b2 AND 0x3F) OR (b3 AND 0x3F), 4))"

text \<open>\<open>[]byte(name)\<close>.\<close>

definition bytes :: "string \<Rightarrow> nat list" where
  "bytes name = map of_char name"

text \<open>\<open>exported\<close>; \<open>None\<close> is the panic.\<close>

definition exported :: "golib \<Rightarrow> string \<Rightarrow> bool option" where
  "exported lib name =
     (let (r, l) = DecodeRune (bytes name) in
      if r = RuneError \<and> l \<le> 1 then None else Some (IsUpper lib r))"

text \<open>\<open>dumpRecursive\<close>, with its two loops: over the fields of a struct and over the
  elements of a slice (\<open>i\<close> is the loop index). A value with a \<open>String\<close> method goes
  to \<open>dumpField\<close> whatever its kind; of a pointer that is not nil, \<open>reflect.Indirect\<close>
  is the pointee \<open>v\<close>.\<close>

lemma size_Indirect: "size (Indirect v) \<le> size v"
  by (cases v rule: Indirect.cases) simp_all

function dumpRecursive :: "golib \<Rightarrow> val \<Rightarrow> string \<Rightarrow> nat \<Rightarrow> outcome"
  and dumpStructFields :: "golib \<Rightarrow> (string \<times> val) list \<Rightarrow> nat \<Rightarrow> outcome"
  and dumpSliceElems :: "golib \<Rightarrow> val list \<Rightarrow> nat \<Rightarrow> nat \<Rightarrow> outcome"
where
  "dumpRecursive lib Invalid name level = Panicked []"
| "dumpRecursive lib (Scalar m s) name level = dumpField lib (Scalar m s) name level"
| "dumpRecursive lib (Array m elems) name level = dumpField lib (Array m elems) name level"
| "dumpRecursive lib (Struct m flds) name level =
     (if m \<noteq> NoString then dumpField lib (Struct m flds) name level
      else
        andThen (printIndent level (name @ '':'' @ [NL]))
          (andThen (dumpStructFields lib flds level)
             (printIndent level (''---'' @ [NL]))))"
| "dumpRecursive lib (Ptr m p) name level =
     (if m \<noteq> NoString then dumpField lib (Ptr m p) name level
      else case p of
          None \<Rightarrow> Done []
        | Some v \<Rightarrow> dumpRecursive lib v name level)"
| "dumpRecursive lib (Slice m elems) name level =
     (if m \<noteq> NoString then dumpField lib (Slice m elems) name level
      else if length elems = 0 then Done []
      else
        andThen (printIndent level (name @ '' ('' @ fmt_d (length elems) @ '' elems):'' @ [NL]))
          (dumpSliceElems lib elems 0 level))"
| "dumpStructFields lib [] level = Done []"
| "dumpStructFields lib ((name, v) # rest) level =
     (case exported lib name of
        None \<Rightarrow> Panicked []
      | Some False \<Rightarrow> dumpStructFields lib rest level
      | Some True \<Rightarrow>
          andThen (dumpRecursive lib v name (level + 1)) (dumpStructFields lib rest level))"
| "dumpSliceElems lib [] i level = Done []"
| "dumpSliceElems lib (e # rest) i level =
     andThen (dumpRecursive lib (Indirect e) (''['' @ fmt_d i @ '']'') (level + 1))
       (dumpSliceElems lib rest (i + 1) level)"
  by pat_completeness auto
termination
  apply (relation "measure (\<lambda>x. case x of
        Inl (_, v, _, _) \<Rightarrow> 2 * size v
      | Inr (Inl (_, fs, _)) \<Rightarrow> 2 * size_list (size_prod (\<lambda>_. 0) size) fs + 1
      | Inr (Inr (_, es, _, _)) \<Rightarrow> 2 * size_list size es + 1)")
  apply (auto simp: less_Suc_eq_le)
  subgoal for e rest using size_Indirect [of e] by linarith
  done

subsection \<open>The second version of the printer\<close>

text \<open>\<open>dumpField\<close> of the second version asks the type of the field for the method
  first; asking the zero Value for its type panics.\<close>

definition dumpField_v2 :: "golib \<Rightarrow> val \<Rightarrow> string \<Rightarrow> nat \<Rightarrow> outcome" where
  "dumpField_v2 lib field name level =
     (if field = Invalid then Panicked []
      else case MethodByName_String field of
        StringPanics \<Rightarrow> Panicked []
      | StringReturns str \<Rightarrow>
          if HasSuffix str ''Invalid'' then Done []
          else printIndent level (name @ '': '' @ str @ [NL])
      | NoString \<Rightarrow>
          (case invalidFunc field of
             Some invalid \<Rightarrow>
               if invalid then Done []
               else printIndent level (name @ '': '' @ Sprint_v lib field @ [NL])
           | None \<Rightarrow> printIndent level (name @ '': '' @ Sprint_plus_v lib field @ [NL])))"

text \<open>\<open>strings.ToLower\<close> of the Go standard library on a string of one byte: an ASCII
  capital becomes its small letter, any other ASCII byte stays, and a byte from \<open>0x80\<close>
  on, which is not valid UTF-8 alone, becomes the three bytes of U+FFFD.\<close>

definition ToLower1 :: "char \<Rightarrow> string" where
  "ToLower1 c =
     (let b = (of_char c :: nat) in
      if b < 0x80 then (if 0x41 \<le> b \<and> b \<le> 0x5A then [char_of (b + 0x20)] else [c])
      else [CHR 0xEF, CHR 0xBF, CHR 0xBD])"

text \<open>The test that makes the field loop of the second version skip a field:
  \<open>len(name) > 0 && strings.ToLower(name[:1]) == name[:1]\<close>.\<close>

definition skipped_v2 :: "string \<Rightarrow> bool" where
  "skipped_v2 name = (length name > 0 \<and> ToLower1 (name ! 0) = take 1 name)"

function dumpRecursive_v2 :: "golib \<Rightarrow> val \<Rightarrow> string \<Rightarrow> nat \<Rightarrow> outcome"
  and dumpStructFields_v2 :: "golib \<Rightarrow> (string \<times> val) list \<Rightarrow> nat \<Rightarrow> outcome"
  and dumpSliceElems_v2 :: "golib \<Rightarrow> val list \<Rightarrow> nat \<Rightarrow> nat \<Rightarrow> outcome"
where
  "dumpRecursive_v2 lib Invalid name level = dumpField_v2 lib Invalid name level"
| "dumpRecursive_v2 lib (Scalar m s) name level = dumpField_v2 lib (Scalar m s) name level"
| "dumpRecursive_v2 lib (Array m elems) name level = dumpField_v2 lib (Array m elems) name level"
| "dumpRecursive_v2 lib (Struct m flds) name level =
     (case m of
        StringPanics \<Rightarrow> Panicked []
      | StringReturns str \<Rightarrow> printIndent level (name @ '': '' @ str @ [NL])
      | NoString \<Rightarrow>
          andThen (printIndent level (name @ '':'' @ [NL])) (dumpStructFields_v2 lib flds level))"
| "dumpRecursive_v2 lib (Ptr m p) name level =
     (case p of
        None \<Rightarrow> Done []
      | Some v \<Rightarrow> dumpRecursive_v2 lib v name level)"
| "dumpRecursive_v2 lib (Slice m elems) name level =
     (if length elems = 0 then Done []
      else
        andThen (printIndent level (name @ '' ('' @ fmt_d (length elems) @ '' elems):'' @ [NL]))
          (dumpSliceElems_v2 lib elems 0 level))"
| "dumpStructFields_v2 lib [] level = Done []"
| "dumpStructFields_v2 lib ((name, v) # rest) level =
     (if skipped_v2 name then dumpStructFields_v2 lib rest level
      else andThen (dumpRecursive_v2 lib v name (level + 1)) (dumpStructFields_v2 lib rest level))"
| "dumpSliceElems_v2 lib [] i level = Done []"
| "dumpSliceElems_v2 lib (e # rest) i level =
     andThen (dumpRecursive_v2 lib (Indirect e) (''['' @ fmt_d i @ '']'') (level + 1))
       (dumpSliceElems_v2 lib rest (i + 1) level)"
  by pat_completeness auto
termination
  apply (relation "measure (\<lambda>x. case x of
        Inl (_, v, _, _) \<Rightarrow> 2 * size v
      | Inr (Inl (_, fs, _)) \<Rightarrow> 2 * size_list (size_prod (\<lambda>_. 0) size) fs + 1
      | Inr (Inr (_, es, _, _)) \<Rightarrow> 2 * size_list size es + 1)")
  apply (auto simp: less_Suc_eq_le)
  subgoal for e rest using size_Indirect [of e] by linarith
  done

section \<open>Well-formed UTF-8\<close>

text \<open>The byte sequences that encode one Unicode scalar value (the table of well-formed
  UTF-8 byte sequences of the Unicode standard), a byte string that begins with one, and a
  byte string that is a concatenation of them.\<close>

definition cont :: "nat \<Rightarrow> bool" where
  "cont b = (0x80 \<le> b \<and> b \<le> 0xBF)"

fun wf_seq :: "nat list \<Rightarrow> bool" where
  "wf_seq [a] = (a \<le> 0x7F)"
| "wf_seq [a, b] = (0xC2 \<le> a \<and> a \<le> 0xDF \<and> cont b)"
| "wf_seq [a, b, c] =
     ((a = 0xE0 \<and> 0xA0 \<le> b \<and> b \<le> 0xBF
       \<or> 0xE1 \<le> a \<and> a \<le> 0xEC \<and> cont b
       \<or> a = 0xED \<and> 0x80 \<le> b \<and> b \<le> 0x9F
       \<or> 0xEE \<le> a \<and> a \<le> 0xEF \<and> cont b) \<and> cont c)"
| "wf_seq [a, b, c, d] =
     ((a = 0xF0 \<and> 0x90 \<le> b \<and> b \<le> 0xBF
       \<or> 0xF1 \<le> a \<and> a \<le> 0xF3 \<and> cont b
       \<or> a = 0xF4 \<and> 0x80 \<le> b \<and> b \<le> 0x8F) \<and> cont c \<and> cont d)"
| "wf_seq _ = False"

definition begins_wf :: "nat list \<Rightarrow> bool" where
  "begins_wf p =
     (wf_seq (take 1 p) \<or> wf_seq (take 2 p) \<or> wf_seq (take 3 p) \<or> wf_seq (take 4 p))"

function valid_utf8 :: "nat list \<Rightarrow> bool" where
  "valid_utf8 p =
     (if p = [] then True
      else wf_seq (take 1 p) \<and> valid_utf8 (drop 1 p)
         \<or> wf_seq (take 2 p) \<and> valid_utf8 (drop 2 p)
         \<or> wf_seq (take 3 p) \<and> valid_utf8 (drop 3 p)
         \<or> wf_seq (take 4 p) \<and> valid_utf8 (drop 4 p))"
  by pat_completeness auto
termination
  by (relation "measure length") auto

declare valid_utf8.simps [simp del]

section \<open>The decoded file and the selector\<close>

text \<open>The file-type tag of the \<open>fit\<close> library: the seventeen constants the program
  names, and \<open>FileTypeOther\<close> for every other value of the tag byte.\<close>

datatype FileType =
    FileTypeActivity | FileTypeDevice | FileTypeSettings | FileTypeSport | FileTypeWorkout
  | FileTypeCourse | FileTypeSchedules | FileTypeWeight | FileTypeTotals | FileTypeGoals
  | FileTypeBloodPressure | FileTypeMonitoringA | FileTypeActivitySummary
  | FileTypeMonitoringDaily | FileTypeMonitoringB | FileTypeSegment | FileTypeSegmentList
  | FileTypeOther nat

text \<open>The accessors of \<open>fit.File\<close> the program calls.\<close>

datatype accessor =
    Activity | Device | Settings | Sport | Workout | Course | Schedules | Weight | Totals
  | Goals | BloodPressure | MonitoringA | ActivitySummary | MonitoringDaily | MonitoringB
  | Segment | SegmentList

text \<open>What the program reads of a decoded \<open>*fit.File\<close>: its type tag, the rendering of
  the tag by \<open>%v\<close>, the file as a reflected value, the exported fields the second version
  reads one by one, and for each accessor what it returns: an error message, or the typed file
  it points to with the name of its type.\<close>

record File =
  Type :: FileType
  Type_text :: string
  ValueOf :: val
  Header :: val
  CRC :: val
  FileId :: val
  FileCreator :: val
  TimestampCorrelation :: val
  UnknownMessages :: val
  UnknownFields :: val
  accessors :: "accessor \<Rightarrow> string + string \<times> val"

text \<open>What the process does besides computing: opening a file, writing to standard
  output, calling an accessor of the decoded file, and closing the file (the deferred
  \<open>f.Close()\<close>).\<close>

datatype event = OpenFile string | Stdout string | Call accessor | CloseFile string

definition QUOTE :: char where
  "QUOTE = CHR 0x27"

text \<open>One case of the switch: the accessor is called; on success the typed file is
  dereferenced and reflected.\<close>

definition call :: "File \<Rightarrow> accessor \<Rightarrow> event list \<times> (string + string \<times> val)" where
  "call fitf a = ([Call a], accessors fitf a)"

text \<open>\<open>getFileValue\<close>: the calls it makes, and the error message or the body.\<close>

definition getFileValue :: "File \<Rightarrow> event list \<times> (string + string \<times> val)" where
  "getFileValue fitf =
     (case Type fitf of
        FileTypeActivity \<Rightarrow> call fitf Activity
      | FileTypeDevice \<Rightarrow> call fitf Device
      | FileTypeSettings \<Rightarrow> call fitf Settings
      | FileTypeSport \<Rightarrow> call fitf Sport
      | FileTypeWorkout \<Rightarrow> call fitf Workout
      | FileTypeCourse \<Rightarrow> call fitf Course
      | FileTypeSchedules \<Rightarrow> call fitf Schedules
      | FileTypeWeight \<Rightarrow> call fitf Weight
      | FileTypeTotals \<Rightarrow> call fitf Totals
      | FileTypeGoals \<Rightarrow> call fitf Goals
      | FileTypeBloodPressure \<Rightarrow> call fitf BloodPressure
      | FileTypeMonitoringA \<Rightarrow> call fitf MonitoringA
      | FileTypeActivitySummary \<Rightarrow> call fitf ActivitySummary
      | FileTypeMonitoringDaily \<Rightarrow> call fitf MonitoringDaily
      | FileTypeMonitoringB \<Rightarrow> call fitf MonitoringB
      | FileTypeSegment \<Rightarrow> call fitf Segment
      | FileTypeSegmentList \<Rightarrow> call fitf SegmentList
      | FileTypeOther _ \<Rightarrow>
          ([], Inl (''unknown filetype '' @ [QUOTE] @ Type_text fitf @ [QUOTE])))"

text \<open>The switch inside \<open>run\<close> of the second version: an accessor's error is wrapped
  in \<open>get file failed: ...\<close>.\<close>

definition call_v2 :: "File \<Rightarrow> accessor \<Rightarrow> event list \<times> (string + string \<times> val)" where
  "call_v2 fitf a =
     ([Call a],
      case accessors fitf a of
        Inl err \<Rightarrow> Inl (''get file failed: '' @ err)
      | Inr body \<Rightarrow> Inr body)"

definition getFileValue_v2 :: "File \<Rightarrow> event list \<times> (string + string \<times> val)" where
  "getFileValue_v2 fitf =
     (case Type fitf of
        FileTypeActivity \<Rightarrow> call_v2 fitf Activity
      | FileTypeDevice \<Rightarrow> call_v2 fitf Device
      | FileTypeSettings \<Rightarrow> call_v2 fitf Settings
      | FileTypeSport \<Rightarrow> call_v2 fitf Sport
      | FileTypeWorkout \<Rightarrow> call_v2 fitf Workout
      | FileTypeCourse \<Rightarrow> call_v2 fitf Course
      | FileTypeSchedules \<Rightarrow> call_v2 fitf Schedules
      | FileTypeWeight \<Rightarrow> call_v2 fitf Weight
      | FileTypeTotals \<Rightarrow> call_v2 fitf Totals
      | FileTypeGoals \<Rightarrow> call_v2 fitf Goals
      | FileTypeBloodPressure \<Rightarrow> call_v2 fitf BloodPressure
      | FileTypeMonitoringA \<Rightarrow> call_v2 fitf MonitoringA
      | FileTypeActivitySummary \<Rightarrow> call_v2 fitf ActivitySummary
      | FileTypeMonitoringDaily \<Rightarrow> call_v2 fitf MonitoringDaily
      | FileTypeMonitoringB \<Rightarrow> call_v2 fitf MonitoringB
      | FileTypeSegment \<Rightarrow> call_v2 fitf Segment
      | FileTypeSegmentList \<Rightarrow> call_v2 fitf SegmentList
      | FileTypeOther _ \<Rightarrow>
          ([], Inl (''get file failed: Unknown filetype '' @ [QUOTE] @ Type_text fitf @ [QUOTE])))"

section \<open>The command\<close>

text \<open>The world outside the process: \<open>os.Open\<close> gives an error message or the file's
  contents, and \<open>fit.Decode\<close> (with unknown messages kept) gives an error message or the
  decoded file.\<close>

record world =
  Open :: "string \<Rightarrow> string + string"
  Decode :: "string \<Rightarrow> string + File"

text \<open>How \<open>run\<close> ends: it returns \<open>nil\<close> or an error, or it panics.\<close>

datatype ending = Returns "string option" | Panics

text \<open>The dump that ends \<open>run\<close>, after the events \<open>sofar\<close>.\<close>

definition lastDump :: "event list \<Rightarrow> outcome \<Rightarrow> event list \<times> ending" where
  "lastDump sofar d =
     (case d of
        Done out \<Rightarrow> (sofar @ [Stdout out], Returns None)
      | Panicked out \<Rightarrow> (sofar @ [Stdout out], Panics))"

text \<open>\<open>run\<close> on the positional arguments \<open>flag.Args()\<close>. The deferred close runs
  whenever the function is left after a successful open.\<close>

definition run :: "golib \<Rightarrow> world \<Rightarrow> string list \<Rightarrow> event list \<times> ending" where
  "run lib w args =
     (if length args \<noteq> 1 then ([], Returns (Some ''Expected a single argument: FILE''))
      else
        let path = args ! 0 in
        case Open w path of
          Inl err \<Rightarrow> ([OpenFile path], Returns (Some err))
        | Inr f \<Rightarrow>
            let (events, how) =
              (case Decode w f of
                 Inl err \<Rightarrow> ([], Returns (Some err))
               | Inr fitf \<Rightarrow>
                   (case dumpRecursive lib (ValueOf fitf) path 0 of
                      Panicked out \<Rightarrow> ([Stdout out], Panics)
                    | Done out \<Rightarrow>
                        (case getFileValue fitf of
                           (calls, Inl err) \<Rightarrow> ([Stdout out] @ calls, Returns (Some err))
                         | (calls, Inr (tname, body)) \<Rightarrow>
                             lastDump ([Stdout out] @ calls) (dumpRecursive lib body tname 0))))
            in ([OpenFile path] @ events @ [CloseFile path], how))"

text \<open>The seven dumps of top-level fields that open \<open>run\<close> of the second version.\<close>

definition dumpTop_v2 :: "golib \<Rightarrow> File \<Rightarrow> outcome" where
  "dumpTop_v2 lib fitf =
     andThen (dumpRecursive_v2 lib (Header fitf) ''Header'' 0)
    (andThen (dumpRecursive_v2 lib (CRC fitf) ''File CRC'' 0)
    (andThen (dumpRecursive_v2 lib (FileId fitf) ''FileId'' 0)
    (andThen (dumpRecursive_v2 lib (FileCreator fitf) ''FileCreator'' 0)
    (andThen (dumpRecursive_v2 lib (TimestampCorrelation fitf) ''TimestampCorrelation'' 0)
    (andThen (dumpRecursive_v2 lib (UnknownMessages fitf) ''UnknownMessages'' 0)
             (dumpRecursive_v2 lib (UnknownFields fitf) ''UnknownFields'' 0))))))"

definition run_v2 :: "golib \<Rightarrow> world \<Rightarrow> string list \<Rightarrow> event list \<times> ending" where
  "run_v2 lib w args =
     (if length args \<noteq> 1 then ([], Returns (Some ''Expected a single argument: FILE''))
      else
        let path = args ! 0 in
        case Open w path of
          Inl err \<Rightarrow> ([OpenFile path], Returns (Some err))
        | Inr f \<Rightarrow>
            let (events, how) =
              (case Decode w f of
                 Inl err \<Rightarrow> ([], Returns (Some err))
               | Inr fitf \<Rightarrow>
                   (case dumpTop_v2 lib fitf of
                      Panicked out \<Rightarrow> ([Stdout out], Panics)
                    | Done out \<Rightarrow>
                        (case getFileValue_v2 fitf of
                           (calls, Inl err) \<Rightarrow> ([Stdout out] @ calls, Returns (Some err))
                         | (calls, Inr (tname, body)) \<Rightarrow>
                             lastDump ([Stdout out] @ calls) (dumpRecursive_v2 lib body tname 0))))
            in ([OpenFile path] @ events @ [CloseFile path], how))"

text \<open>\<open>main\<close>, after \<open>flag.Parse()\<close> has returned: the events of the process and its
  exit code. An error is printed with \<open>fmt.Println\<close>, to standard output. A panic ends
  the process with the Go runtime's exit code 2.\<close>

definition finish :: "event list \<times> ending \<Rightarrow> event list \<times> nat" where
  "finish r =
     (case r of
        (events, Returns None) \<Rightarrow> (events, 0)
      | (events, Returns (Some err)) \<Rightarrow> (events @ [Stdout (err @ [NL])], 1)
      | (events, Panics) \<Rightarrow> (events, 2))"

definition main :: "golib \<Rightarrow> world \<Rightarrow> string list \<Rightarrow> event list \<times> nat" where
  "main lib w args = finish (run lib w args)"

definition main_v2 :: "golib \<Rightarrow> world \<Rightarrow> string list \<Rightarrow> event list \<times> nat" where
  "main_v2 lib w args = finish (run_v2 lib w args)"

text \<open>Everything written to standard output, in order.\<close>

fun stdout :: "event list \<Rightarrow> string" where
  "stdout [] = []"
| "stdout (Stdout s # es) = s @ stdout es"
| "stdout (_ # es) = stdout es"

section \<open>Notions the properties are stated with\<close>

text \<open>The known file types, each with the accessor of its name.\<close>

definition known_types :: "(FileType \<times> accessor) list" where
  "known_types =
     [(FileTypeActivity, Activity), (FileTypeDevice, Device), (FileTypeSettings, Settings),
      (FileTypeSport, Sport), (FileTypeWorkout, Workout), (FileTypeCourse, Course),
      (FileTypeSchedules, Schedules), (FileTypeWeight, Weight), (FileTypeTotals, Totals),
      (FileTypeGoals, Goals), (FileTypeBloodPressure, BloodPressure),
      (FileTypeMonitoringA, MonitoringA), (FileTypeMonitoringDaily, MonitoringDaily),
      (FileTypeMonitoringB, MonitoringB), (FileTypeActivitySummary, ActivitySummary),
      (FileTypeSegment, Segment), (FileTypeSegmentList, SegmentList)]"

text \<open>Statements run one after the other.\<close>

fun inOrder :: "outcome list \<Rightarrow> outcome" where
  "inOrder [] = Done []"
| "inOrder (d # ds) = andThen d (inOrder ds)"

text \<open>An instance of the library parameters for the examples: the capital letters are
  those of ASCII, and \<open>%v\<close> is given for the values the examples print.\<close>

definition example_v :: "val \<Rightarrow> string" where
  "example_v v =
     (case v of
        Scalar _ (Bool b) \<Rightarrow> (if b then ''true'' else ''false'')
      | Scalar _ (Uint8 w) \<Rightarrow> fmt_d (unat w)
      | Scalar _ (Uint16 w) \<Rightarrow> fmt_d (unat w)
      | Scalar _ (Uint32 w) \<Rightarrow> fmt_d (unat w)
      | Scalar _ (String s) \<Rightarrow> s
      | Scalar _ (Float32 w) \<Rightarrow> (if isNaN32 w then ''NaN'' else ''?'')
      | Scalar _ (Float64 w) \<Rightarrow> (if isNaN64 w then ''NaN'' else ''?'')
      | Array _ [] \<Rightarrow> ''[]''
      | _ \<Rightarrow> ''?'')"

definition example_lib :: golib where
  "example_lib =
     \<lparr>IsUpper = (\<lambda>r. 0x41 \<le> r \<and> r \<le> 0x5A), Sprint_v = example_v, Sprint_plus_v = example_v\<rparr>"

text \<open>A decoded file for the examples: every accessor fails but \<open>Activity\<close>.\<close>

definition example_file :: "FileType \<Rightarrow> File" where
  "example_file t =
     \<lparr>Type = t, Type_text = ''FileType(99)'',
      ValueOf = Struct NoString [(''CRC'', Scalar NoString (Uint16 7))],
      Header = Scalar (StringReturns ''hdr'') (Other ''Header''),
      CRC = Scalar NoString (Uint16 7),
      FileId = Struct NoString [],
      FileCreator = Ptr NoString None,
      TimestampCorrelation = Ptr NoString None,
      UnknownMessages = Slice NoString [],
      UnknownFields = Slice NoString [],
      accessors = (\<lambda>a. if a = Activity
                          then Inr (''ActivityFile'', Struct NoString [])
                          else Inl ''fit: wrong file type'')\<rparr>"

definition example_world :: "FileType \<Rightarrow> world" where
  "example_world t =
     \<lparr>Open = (\<lambda>path. if path = ''a.fit'' then Inr ''bytes''
                      else if path = ''bad.fit'' then Inr ''junk''
                      else Inl ''open: no such file or directory''),
      Decode = (\<lambda>f. if f = ''bytes'' then Inr (example_file t) else Inl ''fit: bad header'')\<rparr>"

text \<open>The documented sentinel of each scalar kind of the table, as a value of that kind,
  and the two float kinds.\<close>

fun sentinel :: "scalar \<Rightarrow> scalar option" where
  "sentinel (Bool _) = Some (Bool False)"
| "sentinel (Int8 _) = Some (Int8 0x7F)"
| "sentinel (Int16 _) = Some (Int16 0x7FFF)"
| "sentinel (Int32 _) = Some (Int32 0x7FFFFFFF)"
| "sentinel (Int64 _) = Some (Int64 0x7FFFFFFFFFFFFFFF)"
| "sentinel (Uint8 _) = Some (Uint8 0xFF)"
| "sentinel (Uint16 _) = Some (Uint16 0xFFFF)"
| "sentinel (Uint32 _) = Some (Uint32 0xFFFFFFFF)"
| "sentinel (Uint64 _) = Some (Uint64 0xFFFFFFFFFFFFFFFF)"
| "sentinel (Float32 _) = Some (Float32 0xFFFFFFFF)"
| "sentinel (Float64 _) = Some (Float64 0xFFFFFFFFFFFFFFFF)"
| "sentinel (String _) = Some (String [])"
| "sentinel (Other _) = None"

fun is_float :: "scalar \<Rightarrow> bool" where
  "is_float (Float32 _) = True"
| "is_float (Float64 _) = True"
| "is_float _ = False"

text \<open>The decoder reports a width of at most one.\<close>

definition short :: "nat list \<Rightarrow> bool" where
  "short p = (snd (DecodeRune p) \<le> 1)"

section \<open>Evaluating the examples\<close>

lemma DecodeRune_ascii: "a < 0x80 \<Longrightarrow> DecodeRune (a # p) = (a, 1)"
  by (simp add: DecodeRune_def utf8_first_def Let_def)

lemma DecodeRune_two:
  "0xC2 \<le> a \<Longrightarrow> a < 0xE0 \<Longrightarrow> cont b \<Longrightarrow>
     DecodeRune (a # b # p) = (push_bit 6 (a AND 0x1F) OR (b AND 0x3F), 2)"
  by (simp add: DecodeRune_def utf8_first_def acceptRanges_def Let_def cont_def)

lemma exported_ascii:
  "(of_char c :: nat) < 0x80 \<Longrightarrow> exported lib (c # cs) = Some (IsUpper lib (of_char c))"
  by (simp add: exported_def bytes_def DecodeRune_ascii RuneError_def)

lemma example_upper: "IsUpper example_lib r = (0x41 \<le> r \<and> r \<le> 0x5A)"
  by (simp add: example_lib_def)

lemma example_print:
  "Sprint_v example_lib (Scalar m (Uint8 w)) = fmt_d (unat w)"
  "Sprint_v example_lib (Scalar m (Uint16 x)) = fmt_d (unat x)"
  "Sprint_v example_lib (Scalar m (Bool b)) = (if b then ''true'' else ''false'')"
  by (simp_all add: example_lib_def example_v_def)

lemma example_accent: "exported example_lib ([CHR 0xC3, CHR 0xA9] @ cs) = Some False"
  by (simp add: exported_def bytes_def DecodeRune_two cont_def push_bit_eq_mult RuneError_def
      example_upper)

section \<open>The selector\<close>

text \<open>
  C3. For each of the known file types, \<open>getFileValue\<close> (and the switch in \<open>run\<close> of
  the second version) calls the accessor of that type and no other, and returns what the
  accessor returned: its error (wrapped in \<open>get file failed\<close> by the second version) or the
  typed file by value. The table of types and accessors is one-to-one.
\<close>

theorem getFileValue_known:
  "distinct (map fst known_types) \<and> distinct (map snd known_types) \<and>
   ((t, a) \<in> set known_types \<and> Type fitf = t \<longrightarrow>
      getFileValue fitf = ([Call a], accessors fitf a) \<and>
      getFileValue_v2 fitf =
        ([Call a],
         case accessors fitf a of
           Inl err \<Rightarrow> Inl (''get file failed: '' @ err)
         | Inr body \<Rightarrow> Inr body))"
proof (intro conjI impI)
  show "distinct (map fst known_types)" by (simp add: known_types_def)
  show "distinct (map snd known_types)" by (simp add: known_types_def)
next
  assume h: "(t, a) \<in> set known_types \<and> Type fitf = t"
  then show "getFileValue fitf = ([Call a], accessors fitf a)"
    by (auto simp: known_types_def getFileValue_def call_def)
  from h show "getFileValue_v2 fitf =
        ([Call a],
         case accessors fitf a of
           Inl err \<Rightarrow> Inl (''get file failed: '' @ err)
         | Inr body \<Rightarrow> Inr body)"
    by (auto simp: known_types_def getFileValue_v2_def call_v2_def)
qed

theorem getFileValue_known_witness:
  "(FileTypeWeight, Weight) \<in> set known_types \<and>
   getFileValue (example_file FileTypeWeight) = ([Call Weight], Inl ''fit: wrong file type'') \<and>
   getFileValue_v2 (example_file FileTypeWeight) =
     ([Call Weight], Inl ''get file failed: fit: wrong file type'') \<and>
   getFileValue (example_file FileTypeActivity) =
     ([Call Activity], Inr (''ActivityFile'', Struct NoString []))"
  using getFileValue_known [of FileTypeWeight Weight "example_file FileTypeWeight"]
    getFileValue_known [of FileTypeActivity Activity "example_file FileTypeActivity"]
  by (simp add: known_types_def example_file_def)

text \<open>
  C4. For a file whose type is none of the known ones, \<open>getFileValue\<close> (and the switch of
  the second version) returns the unknown-filetype error and calls no accessor.
\<close>

theorem getFileValue_unknown:
  "Type fitf \<notin> fst ` set known_types \<Longrightarrow>
     getFileValue fitf = ([], Inl (''unknown filetype '' @ [QUOTE] @ Type_text fitf @ [QUOTE])) \<and>
     getFileValue_v2 fitf =
       ([], Inl (''get file failed: Unknown filetype '' @ [QUOTE] @ Type_text fitf @ [QUOTE]))"
  by (cases "Type fitf") (simp_all add: known_types_def getFileValue_def getFileValue_v2_def)

theorem getFileValue_unknown_witness:
  "FileTypeOther 99 \<notin> fst ` set known_types \<and>
   getFileValue (example_file (FileTypeOther 99)) =
     ([], Inl (''unknown filetype '' @ [QUOTE] @ ''FileType(99)'' @ [QUOTE]))"
  using getFileValue_unknown [of "example_file (FileTypeOther 99)"]
  by (simp add: known_types_def example_file_def)

section \<open>The command, run\<close>

lemma finish_simps:
  "finish (ev, Returns None) = (ev, 0)"
  "finish (ev, Returns (Some err)) = (ev @ [Stdout (err @ [NL])], 1)"
  "finish (ev, Panics) = (ev, 2)"
  by (simp_all add: finish_def)

lemma run_arity:
  "length args \<noteq> 1 \<Longrightarrow> run lib w args = ([], Returns (Some ''Expected a single argument: FILE''))"
  "length args \<noteq> 1 \<Longrightarrow> run_v2 lib w args = ([], Returns (Some ''Expected a single argument: FILE''))"
  by (simp_all add: run_def run_v2_def)

lemma run_open_fails:
  "Open w path = Inl err \<Longrightarrow> run lib w [path] = ([OpenFile path], Returns (Some err))"
  "Open w path = Inl err \<Longrightarrow> run_v2 lib w [path] = ([OpenFile path], Returns (Some err))"
  by (simp_all add: run_def run_v2_def)

lemma run_decode_fails:
  "Open w path = Inr f \<Longrightarrow> Decode w f = Inl err \<Longrightarrow>
     run lib w [path] = ([OpenFile path, CloseFile path], Returns (Some err))"
  "Open w path = Inr f \<Longrightarrow> Decode w f = Inl err \<Longrightarrow>
     run_v2 lib w [path] = ([OpenFile path, CloseFile path], Returns (Some err))"
  by (simp_all add: run_def run_v2_def)

lemma run_select_fails:
  "Open w path = Inr f \<Longrightarrow> Decode w f = Inr fitf \<Longrightarrow>
   dumpRecursive lib (ValueOf fitf) path 0 = Done out \<Longrightarrow>
   getFileValue fitf = (calls, Inl err) \<Longrightarrow>
     run lib w [path] = (OpenFile path # Stdout out # calls @ [CloseFile path], Returns (Some err))"
  by (simp add: run_def)

lemma run_v2_select_fails:
  "Open w path = Inr f \<Longrightarrow> Decode w f = Inr fitf \<Longrightarrow>
   dumpTop_v2 lib fitf = Done out \<Longrightarrow>
   getFileValue_v2 fitf = (calls, Inl err) \<Longrightarrow>
     run_v2 lib w [path] = (OpenFile path # Stdout out # calls @ [CloseFile path], Returns (Some err))"
  by (simp add: run_v2_def)

lemma run_success:
  "Open w path = Inr f \<Longrightarrow> Decode w f = Inr fitf \<Longrightarrow>
   dumpRecursive lib (ValueOf fitf) path 0 = Done out \<Longrightarrow>
   getFileValue fitf = (calls, Inr (tname, body)) \<Longrightarrow>
   dumpRecursive lib body tname 0 = Done out2 \<Longrightarrow>
     run lib w [path] = (OpenFile path # Stdout out # calls @ [Stdout out2, CloseFile path], Returns None)"
  by (simp add: run_def lastDump_def)

lemma run_v2_success:
  "Open w path = Inr f \<Longrightarrow> Decode w f = Inr fitf \<Longrightarrow>
   dumpTop_v2 lib fitf = Done out \<Longrightarrow>
   getFileValue_v2 fitf = (calls, Inr (tname, body)) \<Longrightarrow>
   dumpRecursive_v2 lib body tname 0 = Done out2 \<Longrightarrow>
     run_v2 lib w [path] = (OpenFile path # Stdout out # calls @ [Stdout out2, CloseFile path], Returns None)"
  by (simp add: run_v2_def lastDump_def)

lemma stdout_append: "stdout (xs @ ys) = stdout xs @ stdout ys"
  by (induction xs rule: stdout.induct) simp_all

lemma getFileValue_quiet: "stdout (fst (getFileValue fitf)) = []"
  by (cases "Type fitf") (simp_all add: getFileValue_def call_def)

lemma getFileValue_v2_quiet: "stdout (fst (getFileValue_v2 fitf)) = []"
  by (cases "Type fitf") (simp_all add: getFileValue_v2_def call_v2_def)

lemma example_open: "Open (example_world t) ''a.fit'' = Inr ''bytes''"
  by (simp add: example_world_def)

lemma example_decode: "Decode (example_world t) ''bytes'' = Inr (example_file t)"
  by (simp add: example_world_def)

lemma example_first_dump:
  "dumpRecursive example_lib (ValueOf (example_file t)) ''a.fit'' 0 =
     Done (''a.fit:'' @ [NL, TAB] @ ''CRC: 7'' @ [NL] @ ''---'' @ [NL])"
  by (simp add: example_file_def exported_ascii example_upper example_print dumpField_def
      printIndent_def fmt_d.simps)

lemma example_first_dump_v2:
  "dumpTop_v2 example_lib (example_file t) =
     Done (''Header: hdr'' @ [NL] @ ''File CRC: 7'' @ [NL] @ ''FileId:'' @ [NL])"
  by (simp add: dumpTop_v2_def example_file_def example_print dumpField_v2_def
      printIndent_def fmt_d.simps HasSuffix_def)

text \<open>
  C8. The process exits with code 0 when \<open>run\<close> succeeds. On a failure (a number of
  arguments other than one, a file that cannot be opened, a decoding failure, an unknown file
  type, or an accessor that fails) it prints the error message on a line of standard output
  and exits with code 1. With a number of arguments other than one, nothing is opened: the
  only event of the process is the error line.
\<close>

theorem main_exit_codes:
  "(length args \<noteq> 1 \<longrightarrow>
      main lib w args = ([Stdout (''Expected a single argument: FILE'' @ [NL])], 1) \<and>
      main_v2 lib w args = ([Stdout (''Expected a single argument: FILE'' @ [NL])], 1)) \<and>
   (Open w path = Inl err \<longrightarrow>
      main lib w [path] = ([OpenFile path, Stdout (err @ [NL])], 1) \<and>
      main_v2 lib w [path] = ([OpenFile path, Stdout (err @ [NL])], 1)) \<and>
   (Open w path = Inr f \<and> Decode w f = Inl err \<longrightarrow>
      main lib w [path] = ([OpenFile path, CloseFile path, Stdout (err @ [NL])], 1) \<and>
      main_v2 lib w [path] = ([OpenFile path, CloseFile path, Stdout (err @ [NL])], 1)) \<and>
   (Open w path = Inr f \<and> Decode w f = Inr fitf \<and>
    dumpRecursive lib (ValueOf fitf) path 0 = Done out \<and> getFileValue fitf = (calls, Inl err) \<longrightarrow>
      main lib w [path] =
        (OpenFile path # Stdout out # calls @ [CloseFile path, Stdout (err @ [NL])], 1)) \<and>
   (Open w path = Inr f \<and> Decode w f = Inr fitf \<and>
    dumpTop_v2 lib fitf = Done out \<and> getFileValue_v2 fitf = (calls, Inl err) \<longrightarrow>
      main_v2 lib w [path] =
        (OpenFile path # Stdout out # calls @ [CloseFile path, Stdout (err @ [NL])], 1)) \<and>
   (Open w path = Inr f \<and> Decode w f = Inr fitf \<and>
    dumpRecursive lib (ValueOf fitf) path 0 = Done out \<and>
    getFileValue fitf = (calls, Inr (tname, body)) \<and> dumpRecursive lib body tname 0 = Done out2 \<longrightarrow>
      main lib w [path] = (OpenFile path # Stdout out # calls @ [Stdout out2, CloseFile path], 0)) \<and>
   (Open w path = Inr f \<and> Decode w f = Inr fitf \<and>
    dumpTop_v2 lib fitf = Done out \<and>
    getFileValue_v2 fitf = (calls, Inr (tname, body)) \<and> dumpRecursive_v2 lib body tname 0 = Done out2 \<longrightarrow>
      main_v2 lib w [path] = (OpenFile path # Stdout out # calls @ [Stdout out2, CloseFile path], 0))"
  by (simp add: main_def main_v2_def run_arity run_open_fails run_decode_fails run_select_fails
      run_v2_select_fails run_success run_v2_success finish_simps)

theorem main_exit_codes_witness:
  "main example_lib (example_world FileTypeActivity) [] =
     ([Stdout (''Expected a single argument: FILE'' @ [NL])], 1) \<and>
   main_v2 example_lib (example_world FileTypeActivity) [''a.fit'', ''b.fit''] =
     ([Stdout (''Expected a single argument: FILE'' @ [NL])], 1) \<and>
   main example_lib (example_world FileTypeActivity) [''c.fit''] =
     ([OpenFile ''c.fit'', Stdout (''open: no such file or directory'' @ [NL])], 1) \<and>
   main example_lib (example_world FileTypeActivity) [''bad.fit''] =
     ([OpenFile ''bad.fit'', CloseFile ''bad.fit'', Stdout (''fit: bad header'' @ [NL])], 1) \<and>
   snd (main example_lib (example_world FileTypeWeight) [''a.fit'']) = 1 \<and>
   snd (main_v2 example_lib (example_world (FileTypeOther 99)) [''a.fit'']) = 1 \<and>
   snd (main example_lib (example_world FileTypeActivity) [''a.fit'']) = 0 \<and>
   snd (main_v2 example_lib (example_world FileTypeActivity) [''a.fit'']) = 0"
proof -
  let ?w = "example_world FileTypeActivity"
  have o1: "Open ?w ''c.fit'' = Inl ''open: no such file or directory''"
    and o2: "Open ?w ''bad.fit'' = Inr ''junk''"
    and d2: "Decode ?w ''junk'' = Inl ''fit: bad header''"
    by (simp_all add: example_world_def)
  have g1: "getFileValue (example_file FileTypeWeight) = ([Call Weight], Inl ''fit: wrong file type'')"
    and g2: "getFileValue_v2 (example_file (FileTypeOther 99)) =
      ([], Inl (''get file failed: Unknown filetype '' @ [QUOTE] @ ''FileType(99)'' @ [QUOTE]))"
    and g3: "getFileValue (example_file FileTypeActivity) =
      ([Call Activity], Inr (''ActivityFile'', Struct NoString []))"
    and g4: "getFileValue_v2 (example_file FileTypeActivity) =
      ([Call Activity], Inr (''ActivityFile'', Struct NoString []))"
    by (simp_all add: getFileValue_def getFileValue_v2_def call_def call_v2_def example_file_def)
  have b1: "dumpRecursive example_lib (Struct NoString []) ''ActivityFile'' 0 =
      Done (''ActivityFile:'' @ [NL] @ ''---'' @ [NL])"
    and b2: "dumpRecursive_v2 example_lib (Struct NoString []) ''ActivityFile'' 0 =
      Done (''ActivityFile:'' @ [NL])"
    by (simp_all add: printIndent_def)
  note t = main_exit_codes [where lib = example_lib]
  show ?thesis
    using t [of "[]" ?w]
      t [of "[''a.fit'', ''b.fit'']" ?w]
      t [of _ ?w "''c.fit''" "''open: no such file or directory''"]
      t [of _ ?w "''bad.fit''" "''fit: bad header''" "''junk''"]
      t [of _ "example_world FileTypeWeight" "''a.fit''" "''fit: wrong file type''" "''bytes''"
          "example_file FileTypeWeight" _ "[Call Weight]"]
      t [of _ "example_world (FileTypeOther 99)" "''a.fit''"
          "''get file failed: Unknown filetype '' @ [QUOTE] @ ''FileType(99)'' @ [QUOTE]" "''bytes''"
          "example_file (FileTypeOther 99)" _ "[]"]
      t [of _ ?w "''a.fit''" _ "''bytes''" "example_file FileTypeActivity" _ "[Call Activity]"
          "''ActivityFile''" "Struct NoString []"]
      o1 o2 d2 g1 g2 g3 g4 b1 b2 example_open example_decode example_first_dump example_first_dump_v2
    by simp
qed


text \<open>
  C9. When the file decodes, the first stage of the dump returns, and the selector fails (for
  an unknown file type or a failing accessor), the text of the first stage is written before
  the selector calls any accessor, and standard output holds that text followed by the error
  line: nothing of it is taken back.
\<close>

theorem first_stage_output_kept:
  "Open w path = Inr f \<and> Decode w f = Inr fitf \<longrightarrow>
   (dumpRecursive lib (ValueOf fitf) path 0 = Done out \<and> getFileValue fitf = (calls, Inl err) \<longrightarrow>
      fst (main lib w [path]) =
        [OpenFile path, Stdout out] @ calls @ [CloseFile path, Stdout (err @ [NL])] \<and>
      stdout (fst (main lib w [path])) = out @ err @ [NL]) \<and>
   (dumpTop_v2 lib fitf = Done out \<and> getFileValue_v2 fitf = (calls, Inl err) \<longrightarrow>
      fst (main_v2 lib w [path]) =
        [OpenFile path, Stdout out] @ calls @ [CloseFile path, Stdout (err @ [NL])] \<and>
      stdout (fst (main_v2 lib w [path])) = out @ err @ [NL])"
proof (intro impI conjI; elim conjE)
  assume o: "Open w path = Inr f" and d: "Decode w f = Inr fitf"
  {
    assume s1: "dumpRecursive lib (ValueOf fitf) path 0 = Done out"
      and s2: "getFileValue fitf = (calls, Inl err)"
    from getFileValue_quiet [of fitf] s2 have q: "stdout calls = []" by simp
    show m: "fst (main lib w [path]) =
        [OpenFile path, Stdout out] @ calls @ [CloseFile path, Stdout (err @ [NL])]"
      by (simp add: main_def run_select_fails [OF o d s1 s2] finish_simps)
    show "stdout (fst (main lib w [path])) = out @ err @ [NL]"
      by (simp add: m stdout_append q)
  }
  {
    assume s1: "dumpTop_v2 lib fitf = Done out"
      and s2: "getFileValue_v2 fitf = (calls, Inl err)"
    from getFileValue_v2_quiet [of fitf] s2 have q: "stdout calls = []" by simp
    show m: "fst (main_v2 lib w [path]) =
        [OpenFile path, Stdout out] @ calls @ [CloseFile path, Stdout (err @ [NL])]"
      by (simp add: main_v2_def run_v2_select_fails [OF o d s1 s2] finish_simps)
    show "stdout (fst (main_v2 lib w [path])) = out @ err @ [NL]"
      by (simp add: m stdout_append q)
  }
qed

theorem first_stage_output_kept_witness:
  "stdout (fst (main example_lib (example_world (FileTypeOther 99)) [''a.fit''])) =
     ''a.fit:'' @ [NL, TAB] @ ''CRC: 7'' @ [NL] @ ''---'' @ [NL]
       @ ''unknown filetype '' @ [QUOTE] @ ''FileType(99)'' @ [QUOTE] @ [NL] \<and>
   stdout (fst (main_v2 example_lib (example_world FileTypeWeight) [''a.fit''])) =
     ''Header: hdr'' @ [NL] @ ''File CRC: 7'' @ [NL] @ ''FileId:'' @ [NL]
       @ ''get file failed: fit: wrong file type'' @ [NL]"
proof -
  have a: "getFileValue (example_file (FileTypeOther 99)) =
      ([], Inl (''unknown filetype '' @ [QUOTE] @ ''FileType(99)'' @ [QUOTE]))"
    by (simp add: getFileValue_def example_file_def)
  have b: "getFileValue_v2 (example_file FileTypeWeight) =
      ([Call Weight], Inl ''get file failed: fit: wrong file type'')"
    by (simp add: getFileValue_v2_def call_v2_def example_file_def)
  show ?thesis
    using first_stage_output_kept [of "example_world (FileTypeOther 99)" "''a.fit''" "''bytes''"
        "example_file (FileTypeOther 99)" example_lib
        "''a.fit:'' @ [NL, TAB] @ ''CRC: 7'' @ [NL] @ ''---'' @ [NL]" "[]"
        "''unknown filetype '' @ [QUOTE] @ ''FileType(99)'' @ [QUOTE]"]
      first_stage_output_kept [of "example_world FileTypeWeight" "''a.fit''" "''bytes''"
        "example_file FileTypeWeight" example_lib
        "''Header: hdr'' @ [NL] @ ''File CRC: 7'' @ [NL] @ ''FileId:'' @ [NL]" "[Call Weight]"
        "''get file failed: fit: wrong file type''"]
      a b example_open example_decode example_first_dump example_first_dump_v2
    by simp
qed


section \<open>The first rune of a name\<close>

lemma tail_shapes:
  obtains "p = []" | b where "p = [b]" | b c where "p = [b, c]" | b c d q where "p = b # c # d # q"
proof (cases p)
  case Nil then show ?thesis using that by simp
next
  case (Cons b p1)
  show ?thesis
  proof (cases p1)
    case Nil with Cons show ?thesis using that by simp
  next
    case (Cons c p2)
    note c2 = this
    show ?thesis
    proof (cases p2)
      case Nil with \<open>p = b # p1\<close> c2 show ?thesis using that by simp
    next
      case (Cons d q) with \<open>p = b # p1\<close> c2 show ?thesis using that by simp
    qed
  qed
qed

lemma utf8_first_vals:
  "a < 0x80 \<Longrightarrow> utf8_first a = 0xF0"
  "0x80 \<le> a \<Longrightarrow> a < 0xC2 \<Longrightarrow> utf8_first a = 0xF1"
  "0xC2 \<le> a \<Longrightarrow> a < 0xE0 \<Longrightarrow> utf8_first a = 0x02"
  "utf8_first 0xE0 = 0x13"
  "0xE1 \<le> a \<Longrightarrow> a < 0xED \<Longrightarrow> utf8_first a = 0x03"
  "utf8_first 0xED = 0x23"
  "0xEE \<le> a \<Longrightarrow> a < 0xF0 \<Longrightarrow> utf8_first a = 0x03"
  "utf8_first 0xF0 = 0x34"
  "0xF1 \<le> a \<Longrightarrow> a < 0xF4 \<Longrightarrow> utf8_first a = 0x04"
  "utf8_first 0xF4 = 0x44"
  "0xF4 < a \<Longrightarrow> utf8_first a = 0xF1"
  by (simp_all add: utf8_first_def)

lemma begins_wf_shapes:
  "begins_wf [] = False"
  "begins_wf [a] = wf_seq [a]"
  "begins_wf [a, b] = (wf_seq [a] \<or> wf_seq [a, b])"
  "begins_wf [a, b, c] = (wf_seq [a] \<or> wf_seq [a, b] \<or> wf_seq [a, b, c])"
  "begins_wf (a # b # c # d # q) = (wf_seq [a] \<or> wf_seq [a, b] \<or> wf_seq [a, b, c] \<or> wf_seq [a, b, c, d])"
  by (simp_all add: begins_wf_def)

lemmas dr_simps = short_def DecodeRune_def Let_def acceptRanges_def begins_wf_shapes cont_def

lemma short_ascii: "a < 0x80 \<Longrightarrow> short (a # p) \<and> begins_wf (a # p) \<and> fst (DecodeRune (a # p)) = a"
  by (simp add: short_def DecodeRune_def Let_def utf8_first_vals begins_wf_def)

lemma short_xx:
  assumes "0x80 \<le> a \<and> a < 0xC2 \<or> 0xF4 < a"
  shows "short (a # p) \<and> \<not> begins_wf (a # p) \<and> fst (DecodeRune (a # p)) = RuneError"
proof -
  from assms have x: "utf8_first a = 0xF1" by (auto simp: utf8_first_vals)
  from assms have "\<not> begins_wf (a # p)"
    by (cases p rule: tail_shapes) (auto simp: begins_wf_shapes)
  then show ?thesis by (simp add: short_def DecodeRune_def Let_def x)
qed

lemma short_2:
  "0xC2 \<le> a \<Longrightarrow> a < 0xE0 \<Longrightarrow> short (a # p) = (\<not> begins_wf (a # p)) \<and>
     (short (a # p) \<longrightarrow> fst (DecodeRune (a # p)) = RuneError)"
  by (cases p rule: tail_shapes) (auto simp: dr_simps utf8_first_vals)

lemma short_E0:
  "short (0xE0 # p) = (\<not> begins_wf (0xE0 # p)) \<and>
     (short (0xE0 # p) \<longrightarrow> fst (DecodeRune (0xE0 # p)) = RuneError)"
  by (cases p rule: tail_shapes) (auto simp: dr_simps utf8_first_vals)

lemma short_3a:
  "0xE1 \<le> a \<Longrightarrow> a < 0xED \<Longrightarrow> short (a # p) = (\<not> begins_wf (a # p)) \<and>
     (short (a # p) \<longrightarrow> fst (DecodeRune (a # p)) = RuneError)"
  by (cases p rule: tail_shapes) (auto simp: dr_simps utf8_first_vals)

lemma short_ED:
  "short (0xED # p) = (\<not> begins_wf (0xED # p)) \<and>
     (short (0xED # p) \<longrightarrow> fst (DecodeRune (0xED # p)) = RuneError)"
  by (cases p rule: tail_shapes) (auto simp: dr_simps utf8_first_vals)

lemma short_3b:
  "0xEE \<le> a \<Longrightarrow> a < 0xF0 \<Longrightarrow> short (a # p) = (\<not> begins_wf (a # p)) \<and>
     (short (a # p) \<longrightarrow> fst (DecodeRune (a # p)) = RuneError)"
  by (cases p rule: tail_shapes) (auto simp: dr_simps utf8_first_vals)

lemma short_F0:
  "short (0xF0 # p) = (\<not> begins_wf (0xF0 # p)) \<and>
     (short (0xF0 # p) \<longrightarrow> fst (DecodeRune (0xF0 # p)) = RuneError)"
  by (cases p rule: tail_shapes) (auto simp: dr_simps utf8_first_vals)

lemma short_4:
  "0xF1 \<le> a \<Longrightarrow> a < 0xF4 \<Longrightarrow> short (a # p) = (\<not> begins_wf (a # p)) \<and>
     (short (a # p) \<longrightarrow> fst (DecodeRune (a # p)) = RuneError)"
  by (cases p rule: tail_shapes) (auto simp: dr_simps utf8_first_vals)

lemma short_F4:
  "short (0xF4 # p) = (\<not> begins_wf (0xF4 # p)) \<and>
     (short (0xF4 # p) \<longrightarrow> fst (DecodeRune (0xF4 # p)) = RuneError)"
  by (cases p rule: tail_shapes) (auto simp: dr_simps utf8_first_vals)

lemma DecodeRune_error_iff:
  "(fst (DecodeRune p) = RuneError \<and> snd (DecodeRune p) \<le> 1) \<longleftrightarrow> (p = [] \<or> \<not> begins_wf p)"
proof (cases p)
  case Nil
  then show ?thesis by (simp add: DecodeRune_def)
next
  case (Cons a q)
  consider "a < 0x80" | "0x80 \<le> a \<and> a < 0xC2 \<or> 0xF4 < a" | "0xC2 \<le> a" "a < 0xE0" | "a = 0xE0"
    | "0xE1 \<le> a" "a < 0xED" | "a = 0xED" | "0xEE \<le> a" "a < 0xF0" | "a = 0xF0"
    | "0xF1 \<le> a" "a < 0xF4" | "a = 0xF4"
    by linarith
  then show ?thesis
  proof cases
    case 1
    with short_ascii [of a q] show ?thesis by (simp add: Cons short_def RuneError_def)
  next
    case 2
    with short_xx [of a q] show ?thesis by (simp add: Cons short_def)
  next
    case 3
    with short_2 [of a q] show ?thesis unfolding Cons short_def by blast
  next
    case 4
    with short_E0 [of q] show ?thesis unfolding Cons short_def by blast
  next
    case 5
    with short_3a [of a q] show ?thesis unfolding Cons short_def by blast
  next
    case 6
    with short_ED [of q] show ?thesis unfolding Cons short_def by blast
  next
    case 7
    with short_3b [of a q] show ?thesis unfolding Cons short_def by blast
  next
    case 8
    with short_F0 [of q] show ?thesis unfolding Cons short_def by blast
  next
    case 9
    with short_4 [of a q] show ?thesis unfolding Cons short_def by blast
  next
    case 10
    with short_F4 [of q] show ?thesis unfolding Cons short_def by blast
  qed
qed

lemma bytes_Nil: "bytes name = [] \<longleftrightarrow> name = []"
  by (simp add: bytes_def)

lemma valid_utf8_begins: "valid_utf8 p \<Longrightarrow> p \<noteq> [] \<Longrightarrow> begins_wf p"
  by (subst (asm) valid_utf8.simps) (auto simp: begins_wf_def)

lemma exported_None_iff:
  "exported lib name = None \<longleftrightarrow>
     fst (DecodeRune (bytes name)) = RuneError \<and> snd (DecodeRune (bytes name)) \<le> 1"
  by (simp add: exported_def split_beta)

lemma exported_valid:
  assumes "name \<noteq> []" and "valid_utf8 (bytes name)"
  shows "exported lib name = Some (IsUpper lib (fst (DecodeRune (bytes name))))"
proof -
  from assms have "begins_wf (bytes name)"
    by (simp add: valid_utf8_begins bytes_Nil)
  with assms(1) DecodeRune_error_iff [of "bytes name"]
  have "\<not> (fst (DecodeRune (bytes name)) = RuneError \<and> snd (DecodeRune (bytes name)) \<le> 1)"
    by (simp add: bytes_Nil)
  then show ?thesis by (auto simp: exported_def split_beta)
qed

text \<open>
  C10. \<open>exported\<close> panics exactly when the name is empty or does not begin with a
  well-formed UTF-8 sequence. On a name that is not empty and is valid UTF-8, as every Go field
  name is, it returns whether the first rune is an upper-case letter.
\<close>

theorem exported_panics_iff:
  "(exported lib name = None \<longleftrightarrow> name = [] \<or> \<not> begins_wf (bytes name)) \<and>
   (name \<noteq> [] \<and> valid_utf8 (bytes name) \<longrightarrow>
      exported lib name = Some (IsUpper lib (fst (DecodeRune (bytes name)))))"
proof (intro conjI impI)
  show "exported lib name = None \<longleftrightarrow> name = [] \<or> \<not> begins_wf (bytes name)"
    using DecodeRune_error_iff [of "bytes name"] by (simp add: exported_None_iff bytes_Nil)
  assume "name \<noteq> [] \<and> valid_utf8 (bytes name)"
  then show "exported lib name = Some (IsUpper lib (fst (DecodeRune (bytes name))))"
    by (simp add: exported_valid)
qed

theorem exported_panics_iff_witness:
  "valid_utf8 (bytes ''Size'') \<and> exported example_lib ''Size'' = Some True \<and>
   valid_utf8 (bytes ([CHR 0xC3, CHR 0xA9] @ ''tat'')) \<and>
   exported example_lib ([CHR 0xC3, CHR 0xA9] @ ''tat'') = Some False \<and>
   exported example_lib [] = None \<and>
   \<not> begins_wf (bytes [CHR 0xA9, CHR ''t'']) \<and> exported example_lib [CHR 0xA9, CHR ''t''] = None"
proof -
  have v: "valid_utf8 (bytes ''Size'')" "valid_utf8 (bytes ([CHR 0xC3, CHR 0xA9] @ ''tat''))"
    by (simp_all add: valid_utf8.simps bytes_def cont_def)
  have d: "fst (DecodeRune (bytes ''Size'')) = 0x53"
    "fst (DecodeRune (bytes ([CHR 0xC3, CHR 0xA9] @ ''tat''))) = 0xE9"
    by (simp_all add: bytes_def DecodeRune_ascii DecodeRune_two cont_def push_bit_eq_mult)
  have n: "\<not> begins_wf (bytes [CHR 0xA9, CHR ''t''])"
    by (simp add: begins_wf_def bytes_def)
  show ?thesis
    using exported_panics_iff [of example_lib "''Size''"]
      exported_panics_iff [of example_lib "[CHR 0xC3, CHR 0xA9] @ ''tat''"]
      exported_panics_iff [of example_lib "[]"]
      exported_panics_iff [of example_lib "[CHR 0xA9, CHR ''t'']"]
      v d n
    by (simp add: example_lib_def)
qed

section \<open>Scalar fields and the sentinel table\<close>

lemma sint_eq_numeral:
  "sint (w :: 8 word) = 0x7f \<longleftrightarrow> w = 0x7F"
  "sint (x :: 16 word) = 0x7fff \<longleftrightarrow> x = 0x7FFF"
  "sint (y :: 32 word) = 0x7fffffff \<longleftrightarrow> y = 0x7FFFFFFF"
  "sint (z :: 64 word) = 0x7fffffffffffffff \<longleftrightarrow> z = 0x7FFFFFFFFFFFFFFF"
  by (simp_all add: word_eq_iff_signed [where ?'a = int])

lemma uint_eq_numeral:
  "uint (w :: 8 word) = 0xff \<longleftrightarrow> w = 0xFF"
  "uint (x :: 16 word) = 0xffff \<longleftrightarrow> x = 0xFFFF"
  "uint (y :: 32 word) = 0xffffffff \<longleftrightarrow> y = 0xFFFFFFFF"
  "uint (z :: 64 word) = 0xffffffffffffffff \<longleftrightarrow> z = 0xFFFFFFFFFFFFFFFF"
  by (simp_all add: word_uint_eq_iff)

lemma float_sentinels_are_NaN: "isNaN32 0xFFFFFFFF" "isNaN64 0xFFFFFFFFFFFFFFFF"
  by (simp_all add: isNaN32_def isNaN64_def)

lemma float_eq_NaN: "float32_eq a 0xFFFFFFFF = False" "float64_eq b 0xFFFFFFFFFFFFFFFF = False"
  by (simp_all add: float32_eq_def float64_eq_def float_sentinels_are_NaN)

lemma float_never_invalid:
  "invalidValues (Float32 w) = Some False" "invalidValues (Float64 x) = Some False"
  by (simp_all add: float_eq_NaN)

lemma invalidValues_sentinel:
  "sentinel s = Some t \<Longrightarrow> \<not> is_float s \<Longrightarrow> invalidValues s = Some (s = t)"
  by (cases s) (auto simp: sint_eq_numeral uint_eq_numeral)

text \<open>
  C1, as the code has it. For a scalar field whose type has no \<open>String\<close> method:
  of kind bool, int8 to int64, uint8 to uint64 or string, \<open>dumpField\<close> prints nothing when
  the value is the sentinel of its kind, and otherwise prints the one entry
  \<open>name: value\<close> at the indent, the value rendered by \<open>%v\<close>; of a float kind, it prints
  that entry whenever the bits differ from the all-ones pattern. A scalar field whose type has
  a \<open>String\<close> method is printed with the text of that method, or not at all when the text
  ends in \<open>Invalid\<close>, whatever its value. Both versions of \<open>dumpField\<close> agree.
\<close>

theorem sentinel_table_without_String:
  "(sentinel s = Some t \<longrightarrow>
     (s \<noteq> t \<longrightarrow>
        dumpField lib (Scalar NoString s) name level =
          Done (replicate level TAB @ name @ '': '' @ Sprint_v lib (Scalar NoString s) @ [NL]) \<and>
        dumpField_v2 lib (Scalar NoString s) name level =
          Done (replicate level TAB @ name @ '': '' @ Sprint_v lib (Scalar NoString s) @ [NL])) \<and>
     (s = t \<and> \<not> is_float s \<longrightarrow>
        dumpField lib (Scalar NoString s) name level = Done [] \<and>
        dumpField_v2 lib (Scalar NoString s) name level = Done [])) \<and>
   dumpField lib (Scalar (StringReturns str) s) name level =
     (if HasSuffix str ''Invalid'' then Done []
      else Done (replicate level TAB @ name @ '': '' @ str @ [NL])) \<and>
   dumpField_v2 lib (Scalar (StringReturns str) s) name level =
     dumpField lib (Scalar (StringReturns str) s) name level"
proof (intro impI conjI; (elim conjE)?)
  show "dumpField lib (Scalar (StringReturns str) s) name level =
     (if HasSuffix str ''Invalid'' then Done []
      else Done (replicate level TAB @ name @ '': '' @ str @ [NL]))"
    by (simp add: dumpField_def printIndent_def)
  show "dumpField_v2 lib (Scalar (StringReturns str) s) name level =
     dumpField lib (Scalar (StringReturns str) s) name level"
    by (simp add: dumpField_def dumpField_v2_def)
next
  assume t: "sentinel s = Some t"
  {
    assume d: "s \<noteq> t"
    have "invalidValues s = Some False"
    proof (cases "is_float s")
      case True
      then show ?thesis by (cases s) (simp_all add: float_eq_NaN)
    next
      case False
      with invalidValues_sentinel [OF t] d show ?thesis by simp
    qed
    then show "dumpField lib (Scalar NoString s) name level =
          Done (replicate level TAB @ name @ '': '' @ Sprint_v lib (Scalar NoString s) @ [NL])"
      and "dumpField_v2 lib (Scalar NoString s) name level =
          Done (replicate level TAB @ name @ '': '' @ Sprint_v lib (Scalar NoString s) @ [NL])"
      by (simp_all add: dumpField_def dumpField_v2_def printIndent_def)
  }
  {
    assume "s = t" and "\<not> is_float s"
    with invalidValues_sentinel [OF t] have "invalidValues s = Some True" by simp
    then show "dumpField lib (Scalar NoString s) name level = Done []"
      and "dumpField_v2 lib (Scalar NoString s) name level = Done []"
      by (simp_all add: dumpField_def dumpField_v2_def)
  }
qed

theorem sentinel_table_without_String_witness:
  "dumpField example_lib (Scalar NoString (Uint8 0xFE)) ''Cadence'' 1 =
     Done ([TAB] @ ''Cadence: 254'' @ [NL]) \<and>
   dumpField example_lib (Scalar NoString (Uint8 0xFF)) ''Cadence'' 1 = Done [] \<and>
   dumpField_v2 example_lib (Scalar NoString (String [])) ''Name'' 0 = Done [] \<and>
   dumpField_v2 example_lib (Scalar NoString (Bool True)) ''Enabled'' 0 =
     Done (''Enabled: true'' @ [NL])"
  using sentinel_table_without_String [of "Uint8 0xFE" "Uint8 0xFF" example_lib "''Cadence''" 1]
    sentinel_table_without_String [of "Uint8 0xFF" "Uint8 0xFF" example_lib "''Cadence''" 1]
    sentinel_table_without_String [of "String []" "String []" example_lib "''Name''" 0]
    sentinel_table_without_String [of "Bool True" "Bool False" example_lib "''Enabled''" 0]
  by (simp add: example_lib_def example_v_def fmt_d.simps)


text \<open>The claim as stated fails: a uint8 field holding the sentinel \<open>0xFF\<close> is printed
  when its type has a \<open>String\<close> method, a field that differs from the sentinel is not
  printed when that method's text ends in \<open>Invalid\<close>, and a float32 field holding the
  all-ones pattern is printed, since that pattern is a NaN and a NaN equals nothing.\<close>

theorem sentinel_table_counterexample:
  "dumpField example_lib (Scalar (StringReturns ''All'') (Uint8 0xFF)) ''Flags'' 1 =
     Done ([TAB] @ ''Flags: All'' @ [NL]) \<and>
   dumpField example_lib (Scalar (StringReturns ''CrcInvalid'') (Uint8 3)) ''Status'' 1 = Done [] \<and>
   dumpField example_lib (Scalar NoString (Float32 0xFFFFFFFF)) ''Speed'' 1 =
     Done ([TAB] @ ''Speed: NaN'' @ [NL])"
  by (simp add: dumpField_def printIndent_def HasSuffix_def float_eq_NaN example_lib_def
      example_v_def float_sentinels_are_NaN)

section \<open>Values with a String method\<close>

lemma dumpField_Invalid_suffix:
  "MethodByName_String v = StringReturns str \<Longrightarrow> HasSuffix str ''Invalid'' \<Longrightarrow>
     dumpField lib v name level = Done [] \<and> dumpField_v2 lib v name level = Done []"
  by (cases v) (simp_all add: dumpField_def dumpField_v2_def)

text \<open>
  C2, as the code has it. In the first version, a value of any kind with a \<open>String\<close>
  method whose text ends in \<open>Invalid\<close> gives no output, from \<open>dumpField\<close> and from
  \<open>dumpRecursive\<close>, before the sentinel table or the kind of the value is looked at. In
  the second version this holds for \<open>dumpField\<close>, and for \<open>dumpRecursive\<close> on values
  that are not a struct, a pointer or a slice; for a pointer and for a slice the second
  version never asks for a \<open>String\<close> method of the pointer or slice type.
\<close>

theorem Invalid_suffix_suppressed:
  "(MethodByName_String v = StringReturns str \<and> HasSuffix str ''Invalid'' \<longrightarrow>
     dumpField lib v name level = Done [] \<and>
     dumpRecursive lib v name level = Done [] \<and>
     dumpField_v2 lib v name level = Done [] \<and>
     dumpRecursive_v2 lib (Scalar (StringReturns str) s) name level = Done [] \<and>
     dumpRecursive_v2 lib (Array (StringReturns str) elems) name level = Done []) \<and>
   dumpRecursive_v2 lib (Ptr m p) name level = dumpRecursive_v2 lib (Ptr NoString p) name level \<and>
   dumpRecursive_v2 lib (Slice m elems) name level =
     dumpRecursive_v2 lib (Slice NoString elems) name level"
proof (intro conjI impI; (elim conjE)?)
  assume m: "MethodByName_String v = StringReturns str" and h: "HasSuffix str ''Invalid''"
  note f = dumpField_Invalid_suffix [OF _ h]
  from f [OF m] show "dumpField lib v name level = Done []"
    and "dumpField_v2 lib v name level = Done []" by simp_all
  have "dumpRecursive lib v name level = dumpField lib v name level"
    using m by (cases v) simp_all
  with f [OF m] show "dumpRecursive lib v name level = Done []" by simp
  from f [of "Scalar (StringReturns str) s"]
  show "dumpRecursive_v2 lib (Scalar (StringReturns str) s) name level = Done []" by simp
  from f [of "Array (StringReturns str) elems"]
  show "dumpRecursive_v2 lib (Array (StringReturns str) elems) name level = Done []" by simp
qed simp_all

theorem Invalid_suffix_suppressed_witness:
  "HasSuffix ''SportInvalid'' ''Invalid'' \<and>
   dumpRecursive example_lib
     (Struct (StringReturns ''SportInvalid'') [(''A'', Scalar NoString (Uint8 1))]) ''Sport'' 2 =
     Done [] \<and>
   dumpRecursive_v2 example_lib (Scalar (StringReturns ''SportInvalid'') (Uint8 1)) ''Sport'' 2 =
     Done []"
  using Invalid_suffix_suppressed [of
      "Struct (StringReturns ''SportInvalid'') [(''A'', Scalar NoString (Uint8 1))]"
      "''SportInvalid''" example_lib "''Sport''" 2 "Uint8 1"]
  by (simp add: HasSuffix_def)

text \<open>The claim as stated fails in the second version: a struct whose \<open>String\<close> method
  gives \<open>Invalid\<close> is printed with that text, and a pointer whose type has such a method is
  followed and its pointee printed.\<close>

theorem String_v2_counterexample:
  "dumpRecursive_v2 example_lib
     (Struct (StringReturns ''Invalid'') [(''semicircles'', Scalar NoString (Int32 0x7FFFFFFF))])
     ''PositionLat'' 1 = Done ([TAB] @ ''PositionLat: Invalid'' @ [NL]) \<and>
   dumpRecursive_v2 example_lib
     (Ptr (StringReturns ''Invalid'') (Some (Scalar NoString (Uint8 5)))) ''Ref'' 1 =
     Done ([TAB] @ ''Ref: 5'' @ [NL])"
  by (simp add: printIndent_def dumpField_v2_def example_lib_def example_v_def fmt_d.simps)

section \<open>Pointers\<close>

text \<open>
  C5, as the code has it. A nil pointer whose type has no \<open>String\<close> method gives no
  output, and a pointer that is not nil gives exactly the output of its pointee under the same
  name and indent; the second version does so for every pointer. In the first version a
  pointer whose type has a \<open>String\<close> method, nil or not, goes to \<open>dumpField\<close>.
\<close>

theorem pointer_transparent:
  "dumpRecursive lib (Ptr NoString None) name level = Done [] \<and>
   dumpRecursive lib (Ptr NoString (Some v)) name level = dumpRecursive lib v name level \<and>
   dumpRecursive_v2 lib (Ptr m None) name level = Done [] \<and>
   dumpRecursive_v2 lib (Ptr m (Some v)) name level = dumpRecursive_v2 lib v name level \<and>
   (m \<noteq> NoString \<longrightarrow>
      dumpRecursive lib (Ptr m p) name level = dumpField lib (Ptr m p) name level)"
  by simp

theorem pointer_transparent_witness:
  "dumpRecursive example_lib (Ptr (StringReturns ''12.5'') (Some (Struct NoString []))) ''Big'' 0 =
     Done (''Big: 12.5'' @ [NL])"
  using pointer_transparent [of example_lib "''Big''" 0 _ "StringReturns ''12.5''"
      "Some (Struct NoString [])"]
  by (simp add: dumpField_def printIndent_def HasSuffix_def)

text \<open>The claim as stated fails in the first version: a nil pointer whose type has a
  \<open>String\<close> method that renders nil as \<open><nil>\<close> is printed.\<close>

theorem pointer_with_String_counterexample:
  "dumpRecursive example_lib (Ptr (StringReturns ''<nil>'') None) ''Ref'' 1 =
     Done ([TAB] @ ''Ref: <nil>'' @ [NL])"
  by (simp add: dumpField_def HasSuffix_def printIndent_def)

section \<open>Slices and arrays\<close>

lemma dumpSliceElems_inOrder:
  "dumpSliceElems lib es i level =
     inOrder (map (\<lambda>k. dumpRecursive lib (Indirect (es ! k)) (''['' @ fmt_d (i + k) @ '']'') (level + 1))
                [0..<length es])"
proof (induction es arbitrary: i)
  case Nil
  show ?case by simp
next
  case (Cons e es)
  have "[0..<length (e # es)] = 0 # map Suc [0..<length es]"
    by (simp add: upt_conv_Cons map_Suc_upt del: upt_Suc)
  then show ?case
    by (simp add: Cons.IH [of "Suc i"] comp_def del: upt_Suc)
qed

lemma dumpSliceElems_v2_inOrder:
  "dumpSliceElems_v2 lib es i level =
     inOrder (map (\<lambda>k. dumpRecursive_v2 lib (Indirect (es ! k)) (''['' @ fmt_d (i + k) @ '']'') (level + 1))
                [0..<length es])"
proof (induction es arbitrary: i)
  case Nil
  show ?case by simp
next
  case (Cons e es)
  have "[0..<length (e # es)] = 0 # map Suc [0..<length es]"
    by (simp add: upt_conv_Cons map_Suc_upt del: upt_Suc)
  then show ?case
    by (simp add: Cons.IH [of "Suc i"] comp_def del: upt_Suc)
qed

text \<open>
  C6, as the code has it. A slice (in the first version: one whose type has no \<open>String\<close>
  method) gives no output when it is empty. With \<open>N > 0\<close> elements it gives the header
  \<open>name (N elems):\<close> at the indent and then, for \<open>i\<close> from 0 to \<open>N - 1\<close> in order, the
  dump of \<open>reflect.Indirect\<close> of element \<open>i\<close> under the name \<open>[i]\<close> one level deeper; a
  panic in one of them ends the dump there. An array is not a sequence to the printer: without
  a \<open>String\<close> method it is printed by \<open>dumpField\<close> as the single entry
  \<open>name: value\<close>, the value rendered by \<open>%+v\<close>.
\<close>

theorem slice_rendering:
  "dumpRecursive lib (Slice NoString []) name level = Done [] \<and>
   dumpRecursive_v2 lib (Slice m []) name level = Done [] \<and>
   (elems \<noteq> [] \<longrightarrow>
      dumpRecursive lib (Slice NoString elems) name level =
        andThen
          (Done (replicate level TAB @ name @ '' ('' @ fmt_d (length elems) @ '' elems):'' @ [NL]))
          (inOrder (map (\<lambda>i. dumpRecursive lib (Indirect (elems ! i))
                                (''['' @ fmt_d i @ '']'') (level + 1))
                      [0..<length elems])) \<and>
      dumpRecursive_v2 lib (Slice m elems) name level =
        andThen
          (Done (replicate level TAB @ name @ '' ('' @ fmt_d (length elems) @ '' elems):'' @ [NL]))
          (inOrder (map (\<lambda>i. dumpRecursive_v2 lib (Indirect (elems ! i))
                                (''['' @ fmt_d i @ '']'') (level + 1))
                      [0..<length elems]))) \<and>
   dumpRecursive lib (Array NoString elems) name level =
     Done (replicate level TAB @ name @ '': '' @ Sprint_plus_v lib (Array NoString elems) @ [NL]) \<and>
   dumpRecursive_v2 lib (Array NoString elems) name level =
     Done (replicate level TAB @ name @ '': '' @ Sprint_plus_v lib (Array NoString elems) @ [NL])"
  by (simp add: dumpSliceElems_inOrder dumpSliceElems_v2_inOrder printIndent_def dumpField_def
      dumpField_v2_def del: upt_Suc)

theorem slice_rendering_witness:
  "dumpRecursive example_lib
     (Slice NoString [Scalar NoString (Uint8 3), Ptr NoString (Some (Scalar NoString (Uint8 255))),
        Scalar NoString (Uint8 4)]) ''Laps'' 1 =
   Done ([TAB] @ ''Laps (3 elems):'' @ [NL] @ [TAB, TAB] @ ''[0]: 3'' @ [NL] @ [TAB, TAB] @ ''[2]: 4'' @ [NL])"
  using slice_rendering [of example_lib "''Laps''" 1 _
      "[Scalar NoString (Uint8 3), Ptr NoString (Some (Scalar NoString (Uint8 255))), Scalar NoString (Uint8 4)]"]
  by (simp add: dumpField_def printIndent_def example_lib_def example_v_def fmt_d.simps upt_rec [of 0] upt_rec [of 1]  upt_rec [of 2] upt_rec [of 3])


text \<open>The claim as stated fails for arrays: an empty array is printed on a line.\<close>

theorem array_counterexample:
  "dumpRecursive example_lib (Array NoString []) ''DataType'' 0 = Done (''DataType: []'' @ [NL]) \<and>
   dumpRecursive_v2 example_lib (Array NoString []) ''DataType'' 0 = Done (''DataType: []'' @ [NL])"
  by (simp add: dumpField_def dumpField_v2_def printIndent_def example_lib_def example_v_def)

section \<open>Structs\<close>

lemma ToLower1_fixed:
  "ToLower1 c = [c] \<longleftrightarrow>
     (of_char c :: nat) < 0x80 \<and> \<not> (0x41 \<le> (of_char c :: nat) \<and> (of_char c :: nat) \<le> 0x5A)"
proof (cases "0x41 \<le> (of_char c :: nat) \<and> (of_char c :: nat) \<le> 0x5A")
  case True
  have "char_of ((of_char c :: nat) + 0x20) \<noteq> c"
  proof
    assume "char_of ((of_char c :: nat) + 0x20) = c"
    then have "(of_char (char_of ((of_char c :: nat) + 0x20)) :: nat) = of_char c" by simp
    then have "((of_char c :: nat) + 0x20) mod 256 = of_char c" by (simp only: of_char_of)
    moreover from True have "((of_char c :: nat) + 0x20) mod 256 = of_char c + 0x20" by simp
    ultimately show False by simp
  qed
  with True show ?thesis by (simp add: ToLower1_def Let_def)
next
  case False
  then show ?thesis by (auto simp: ToLower1_def Let_def)
qed

lemma skipped_v2_iff:
  "skipped_v2 name \<longleftrightarrow>
     name \<noteq> [] \<and> (of_char (hd name) :: nat) < 0x80 \<and>
     \<not> (0x41 \<le> (of_char (hd name) :: nat) \<and> (of_char (hd name) :: nat) \<le> 0x5A)"
  by (cases name) (simp_all add: skipped_v2_def ToLower1_fixed)

lemma dumpStructFields_filter:
  "\<forall>(n, v) \<in> set flds. exported lib n \<noteq> None \<Longrightarrow>
   dumpStructFields lib flds level =
     inOrder (map (\<lambda>(n, v). dumpRecursive lib v n (level + 1))
                (filter (\<lambda>(n, v). exported lib n = Some True) flds))"
proof (induction flds)
  case Nil
  show ?case by simp
next
  case (Cons f flds)
  obtain n v where f: "f = (n, v)" by (cases f)
  from Cons.prems f obtain b where b: "exported lib n = Some b" by auto
  from Cons.prems have "\<forall>(n, v) \<in> set flds. exported lib n \<noteq> None" by simp
  from Cons.IH [OF this] show ?case by (cases b) (simp_all add: f b)
qed

lemma dumpStructFields_v2_filter:
  "dumpStructFields_v2 lib flds level =
     inOrder (map (\<lambda>(n, v). dumpRecursive_v2 lib v n (level + 1))
                (filter (\<lambda>(n, v). \<not> skipped_v2 n) flds))"
proof (induction flds)
  case Nil
  show ?case by simp
next
  case (Cons f flds)
  obtain n v where f: "f = (n, v)" by (cases f)
  from Cons.IH show ?case by (simp add: f)
qed

text \<open>The first version on a struct without a \<open>String\<close> method whose field names are
  valid UTF-8: the header, the dumps of the fields whose first rune is an upper-case letter,
  one level deeper and in order, and the closing line.\<close>

lemma struct_rendering:
  assumes "\<forall>(n, v) \<in> set flds. n \<noteq> [] \<and> valid_utf8 (bytes n)"
  shows "dumpRecursive lib (Struct NoString flds) name level =
     andThen (Done (replicate level TAB @ name @ '':'' @ [NL]))
       (andThen
          (inOrder (map (\<lambda>(n, v). dumpRecursive lib v n (level + 1))
             (filter (\<lambda>(n, v). IsUpper lib (fst (DecodeRune (bytes n)))) flds)))
          (Done (replicate level TAB @ ''---'' @ [NL])))"
proof -
  from assms have e: "\<forall>(n, v) \<in> set flds.
      exported lib n = Some (IsUpper lib (fst (DecodeRune (bytes n))))"
    by (auto simp: exported_valid)
  then have "\<forall>(n, v) \<in> set flds. exported lib n \<noteq> None" by auto
  from dumpStructFields_filter [OF this]
  have "dumpStructFields lib flds level =
     inOrder (map (\<lambda>(n, v). dumpRecursive lib v n (level + 1))
                (filter (\<lambda>(n, v). exported lib n = Some True) flds))" .
  also from e have "filter (\<lambda>(n, v). exported lib n = Some True) flds =
      filter (\<lambda>(n, v). IsUpper lib (fst (DecodeRune (bytes n)))) flds"
    by (intro filter_cong) auto
  finally show ?thesis by (simp add: printIndent_def)
qed

text \<open>The second version on a struct without a \<open>String\<close> method: the header and the
  dumps of the fields it does not skip; it skips a field exactly when the first byte of its
  name is an ASCII byte that is not a capital letter.\<close>

lemma struct_rendering_v2:
  "dumpRecursive_v2 lib (Struct NoString flds) name level =
     andThen (Done (replicate level TAB @ name @ '':'' @ [NL]))
       (inOrder (map (\<lambda>(n, v). dumpRecursive_v2 lib v n (level + 1))
          (filter (\<lambda>(n, v). \<not> skipped_v2 n) flds)))"
  by (simp add: dumpStructFields_v2_filter printIndent_def)

text \<open>
  C7. A struct with the fields \<open>Size\<close>, \<open>\<acute>etat\<close> (the name begins with the two
  bytes of a small e with acute accent) and \<open>crc\<close>: the first version prints \<open>Size\<close>
  only; the second version also visits and prints the field whose name begins with the small
  accented letter.
\<close>

theorem lowercase_field_v2:
  "dumpRecursive_v2 example_lib
     (Struct NoString
        [(''Size'', Scalar NoString (Uint8 12)),
         ([CHR 0xC3, CHR 0xA9] @ ''tat'', Scalar NoString (Uint8 3)),
         (''crc'', Scalar NoString (Uint8 9))])
     ''Header'' 0 =
   Done (''Header:'' @ [NL, TAB] @ ''Size: 12'' @ [NL, TAB, CHR 0xC3, CHR 0xA9] @ ''tat: 3'' @ [NL]) \<and>
   dumpRecursive example_lib
     (Struct NoString
        [(''Size'', Scalar NoString (Uint8 12)),
         ([CHR 0xC3, CHR 0xA9] @ ''tat'', Scalar NoString (Uint8 3)),
         (''crc'', Scalar NoString (Uint8 9))])
     ''Header'' 0 =
   Done (''Header:'' @ [NL, TAB] @ ''Size: 12'' @ [NL] @ ''---'' @ [NL])"
  using example_accent [of "''tat''"]
  by (simp add: skipped_v2_iff exported_ascii example_upper example_print
      dumpField_def dumpField_v2_def printIndent_def fmt_d.simps)

end
